theory Spec2Isabelle
  imports Complex_Main
begin

section \<open>Python values\<close>

text \<open>
  The normalisation library (\<^verbatim>\<open>exfor_x4i3_common.py\<close>) works on dynamically typed
  cells. A cell is \<^verbatim>\<open>None\<close>, an \<^verbatim>\<open>int\<close> (a \<^verbatim>\<open>bool\<close> is an \<^verbatim>\<open>int\<close> in Python),
  a \<^verbatim>\<open>float\<close> or a \<^verbatim>\<open>str\<close>.

  A Python float is an IEEE 754 double. A finite double is represented by the real number
  it denotes; the two infinities and NaN are values of their own. Rounding of a finite
  result to the nearest double is not represented, overflow to an infinity is: a real
  result of magnitude \<open>2^1024 - 2^970\<close> or more rounds to an infinity.

  A string is a list of characters with code points up to \<open>U+00FF\<close>; the headings
  and units of EXFOR are ASCII.

  Raising is a value: \<open>Inl\<close> of the exception. \<^verbatim>\<open>ValueError\<close> is raised by
  \<^verbatim>\<open>int\<close> on a string of too many digits, \<^verbatim>\<open>OverflowError\<close> by \<^verbatim>\<open>float\<close> on an
  integer that is too large, \<^verbatim>\<open>IntegrityError\<close> by the output database.
\<close>

datatype pyfloat = Finite real | PosInf | NegInf | NaN

datatype pyval = PyNone | PyInt int | PyFloat pyfloat | PyStr string

datatype pyerror = OverflowError | ValueError | IntegrityError

text \<open>\<open>bind_err\<close> runs the rest of a computation unless an exception was raised.\<close>

definition bind_err :: "pyerror + 'a \<Rightarrow> ('a \<Rightarrow> pyerror + 'b) \<Rightarrow> pyerror + 'b" where
  "bind_err m f = (case m of Inl e \<Rightarrow> Inl e | Inr x \<Rightarrow> f x)"

definition float_overflow :: real where
  "float_overflow = 2 ^ 1024 - 2 ^ 970"

definition to_double :: "real \<Rightarrow> pyfloat" where
  "to_double r =
     (if float_overflow \<le> r then PosInf
      else if r \<le> - float_overflow then NegInf
      else Finite r)"

text \<open>\<^verbatim>\<open>math.isnan\<close>, \<^verbatim>\<open>math.isinf\<close> and \<^verbatim>\<open>abs\<close>.\<close>

fun isnan :: "pyfloat \<Rightarrow> bool" where
  "isnan NaN = True"
| "isnan _ = False"

fun isinf :: "pyfloat \<Rightarrow> bool" where
  "isinf PosInf = True"
| "isinf NegInf = True"
| "isinf _ = False"

fun fabs :: "pyfloat \<Rightarrow> pyfloat" where
  "fabs (Finite a) = Finite \<bar>a\<bar>"
| "fabs PosInf = PosInf"
| "fabs NegInf = PosInf"
| "fabs NaN = NaN"

text \<open>
  \<^verbatim>\<open>x * c\<close> and \<^verbatim>\<open>x / c\<close> for a float \<open>x\<close> and a positive finite literal \<open>c\<close>: the source
  multiplies and divides only by the literals of its unit tables and by \<^verbatim>\<open>2.0\<close>.
\<close>

fun fmul :: "pyfloat \<Rightarrow> real \<Rightarrow> pyfloat" where
  "fmul (Finite a) c = to_double (a * c)"
| "fmul PosInf c = PosInf"
| "fmul NegInf c = NegInf"
| "fmul NaN c = NaN"

fun fdiv :: "pyfloat \<Rightarrow> real \<Rightarrow> pyfloat" where
  "fdiv (Finite a) c = to_double (a / c)"
| "fdiv PosInf c = PosInf"
| "fdiv NegInf c = NegInf"
| "fdiv NaN c = NaN"

fun fadd :: "pyfloat \<Rightarrow> pyfloat \<Rightarrow> pyfloat" where
  "fadd (Finite a) (Finite b) = to_double (a + b)"
| "fadd NaN y = NaN"
| "fadd x NaN = NaN"
| "fadd PosInf NegInf = NaN"
| "fadd NegInf PosInf = NaN"
| "fadd PosInf y = PosInf"
| "fadd NegInf y = NegInf"
| "fadd (Finite a) y = y"

text \<open>The comparison \<^verbatim>\<open>0 <= x\<close> on floats: false for NaN.\<close>

fun nonneg :: "pyfloat \<Rightarrow> bool" where
  "nonneg (Finite a) = (0 \<le> a)"
| "nonneg PosInf = True"
| "nonneg NegInf = False"
| "nonneg NaN = False"

text \<open>
  \<^verbatim>\<open>float(n)\<close> for an \<^verbatim>\<open>int\<close>: raises \<^verbatim>\<open>OverflowError\<close> when \<open>n\<close> is too large
  for a double.
\<close>

definition float_of_int :: "int \<Rightarrow> pyerror + pyfloat" where
  "float_of_int n =
     (if float_overflow \<le> \<bar>real_of_int n\<bar> then Inl OverflowError
      else Inr (Finite (real_of_int n)))"

subsection \<open>Strings\<close>

text \<open>\<^verbatim>\<open>str.isspace\<close> holds for the tab, the line feed, the vertical tab, the form
  feed, the carriage return, the four separators \<open>U+001C\<close> to \<open>U+001F\<close>, the space, the
  next-line character \<open>U+0085\<close> and the no-break space \<open>U+00A0\<close>; \<^verbatim>\<open>str.strip\<close>
  removes these characters at both ends.\<close>

definition isspace :: "char \<Rightarrow> bool" where
  "isspace c = (c \<in> set [CHR 0x09, CHR 0x0A, CHR 0x0B, CHR 0x0C, CHR 0x0D,
                          CHR 0x1C, CHR 0x1D, CHR 0x1E, CHR 0x1F, CHR 0x20,
                          CHR 0x85, CHR 0xA0])"

definition strip :: "string \<Rightarrow> string" where
  "strip s = rev (dropWhile isspace (rev (dropWhile isspace s)))"

text \<open>
  \<^verbatim>\<open>str.upper\<close>: the capital of a small letter \<open>a\<close> to \<open>z\<close>, and of a small letter
  \<open>U+00E0\<close> to \<open>U+00FE\<close> (the division sign \<open>U+00F7\<close> is not a letter), lies 32 code
  points below it; the sharp s \<open>U+00DF\<close> becomes \<^verbatim>\<open>SS\<close>. The capitals of the micro sign
  \<open>U+00B5\<close> and of \<open>U+00FF\<close> lie above \<open>U+00FF\<close>, so these two characters are kept;
  every other character is its own capital.
\<close>

definition lower_letters :: string where
  "lower_letters = ''abcdefghijklmnopqrstuvwxyz''"

definition upper_letters :: string where
  "upper_letters = ''ABCDEFGHIJKLMNOPQRSTUVWXYZ''"

definition lower_latin :: string where
  "lower_latin =
     [CHR 0xE0, CHR 0xE1, CHR 0xE2, CHR 0xE3, CHR 0xE4, CHR 0xE5, CHR 0xE6, CHR 0xE7,
      CHR 0xE8, CHR 0xE9, CHR 0xEA, CHR 0xEB, CHR 0xEC, CHR 0xED, CHR 0xEE, CHR 0xEF,
      CHR 0xF0, CHR 0xF1, CHR 0xF2, CHR 0xF3, CHR 0xF4, CHR 0xF5, CHR 0xF6,
      CHR 0xF8, CHR 0xF9, CHR 0xFA, CHR 0xFB, CHR 0xFC, CHR 0xFD, CHR 0xFE]"

definition upper_latin :: string where
  "upper_latin =
     [CHR 0xC0, CHR 0xC1, CHR 0xC2, CHR 0xC3, CHR 0xC4, CHR 0xC5, CHR 0xC6, CHR 0xC7,
      CHR 0xC8, CHR 0xC9, CHR 0xCA, CHR 0xCB, CHR 0xCC, CHR 0xCD, CHR 0xCE, CHR 0xCF,
      CHR 0xD0, CHR 0xD1, CHR 0xD2, CHR 0xD3, CHR 0xD4, CHR 0xD5, CHR 0xD6,
      CHR 0xD8, CHR 0xD9, CHR 0xDA, CHR 0xDB, CHR 0xDC, CHR 0xDD, CHR 0xDE]"

definition upper_char :: "char \<Rightarrow> string" where
  "upper_char c =
     (if c = CHR 0xDF then ''SS''
      else
        (case map_of (zip (lower_letters @ lower_latin) (upper_letters @ upper_latin)) c of
           Some u \<Rightarrow> [u]
         | None \<Rightarrow> [c]))"

definition upper :: "string \<Rightarrow> string" where
  "upper s = concat (map upper_char s)"

text \<open>The builtin \<^verbatim>\<open>float\<close> reads its words without regard to the case of the letters
  \<open>a\<close> to \<open>z\<close>; \<open>lower\<close> folds that case.\<close>

definition lower_char :: "char \<Rightarrow> char" where
  "lower_char c = (case map_of (zip upper_letters lower_letters) c of Some u \<Rightarrow> u | None \<Rightarrow> c)"

definition lower :: "string \<Rightarrow> string" where
  "lower s = map lower_char s"

text \<open>The decimal digits among these characters are \<open>0\<close> to \<open>9\<close>.\<close>

definition is_digit :: "char \<Rightarrow> bool" where
  "is_digit c = (c \<in> set ''0123456789'')"

definition digit_val :: "char \<Rightarrow> nat" where
  "digit_val c = of_char c - 48"

text \<open>The number that a string of decimal digits denotes.\<close>

definition int_of_digits :: "string \<Rightarrow> int" where
  "int_of_digits ds = int (foldl (\<lambda>acc c. 10 * acc + digit_val c) 0 ds)"

text \<open>
  \<^verbatim>\<open>int(ds)\<close> for a string of decimal digits. Since Python 3.11, which the build script
  needs for \<^verbatim>\<open>datetime.UTC\<close>, \<^verbatim>\<open>int\<close> raises \<^verbatim>\<open>ValueError\<close> for a string of more
  than 4300 digits (the default of \<^verbatim>\<open>sys.set_int_max_str_digits\<close>).
\<close>

definition max_str_digits :: nat where
  "max_str_digits = 4300"

definition py_int :: "string \<Rightarrow> pyerror + int" where
  "py_int ds = (if max_str_digits < length ds then Inl ValueError else Inr (int_of_digits ds))"

text \<open>\<^verbatim>\<open>label.startswith(p)\<close> and \<^verbatim>\<open>p in label\<close>.\<close>

definition startswith :: "string \<Rightarrow> string \<Rightarrow> bool" where
  "startswith s p = (take (length p) s = p)"

fun contains :: "string \<Rightarrow> string \<Rightarrow> bool" where
  "contains [] p = (p = [])"
| "contains (c # cs) p = (startswith (c # cs) p \<or> contains cs p)"

subsection \<open>The builtin \<^verbatim>\<open>float\<close> on a string\<close>

text \<open>
  \<^verbatim>\<open>float(text)\<close> accepts an optional sign followed by \<^verbatim>\<open>inf\<close>, \<^verbatim>\<open>infinity\<close> or
  \<^verbatim>\<open>nan\<close> in any case, or by a decimal number: digits with an optional point, then an
  optional exponent; single underscores may separate digits. Any other text raises
  \<^verbatim>\<open>ValueError\<close>, the value \<open>None\<close> here. A decimal too large for a double is an
  infinity, not an error.
\<close>

fun take_digitpart :: "string \<Rightarrow> string \<times> string" where
  "take_digitpart [] = ([], [])"
| "take_digitpart [c] = (if is_digit c then ([c], []) else ([], [c]))"
| "take_digitpart (c # u # cs) =
     (if \<not> is_digit c then ([], c # u # cs)
      else if is_digit u then (case take_digitpart (u # cs) of (ds, r) \<Rightarrow> (c # ds, r))
      else if u = CHR ''_'' \<and> cs \<noteq> [] \<and> is_digit (hd cs)
        then (case take_digitpart cs of (ds, r) \<Rightarrow> (c # ds, r))
      else ([c], u # cs))"

definition take_sign :: "string \<Rightarrow> bool \<times> string" where
  "take_sign s =
     (case s of
        [] \<Rightarrow> (False, [])
      | c # cs \<Rightarrow> if c = CHR ''-'' then (True, cs)
                  else if c = CHR ''+'' then (False, cs)
                  else (False, c # cs))"

definition take_fraction :: "string \<Rightarrow> string \<times> string" where
  "take_fraction s =
     (case s of
        [] \<Rightarrow> ([], [])
      | c # cs \<Rightarrow> if c = CHR ''.'' then take_digitpart cs else ([], c # cs))"

text \<open>The exponent part: \<open>None\<close> when the rest of the text is not an exponent.\<close>

definition take_exponent :: "string \<Rightarrow> int option" where
  "take_exponent s =
     (case s of
        [] \<Rightarrow> Some 0
      | c # cs \<Rightarrow>
          if c = CHR ''e'' \<or> c = CHR ''E'' then
            (case take_sign cs of (neg, r) \<Rightarrow>
              (case take_digitpart r of (ds, rest) \<Rightarrow>
                 if ds = [] \<or> rest \<noteq> [] then None
                 else Some (if neg then - int_of_digits ds else int_of_digits ds)))
          else None)"

definition scale10 :: "int \<Rightarrow> int \<Rightarrow> real" where
  "scale10 m e = (if 0 \<le> e then real_of_int m * 10 ^ nat e else real_of_int m / 10 ^ nat (- e))"

definition float_of_str :: "string \<Rightarrow> pyfloat option" where
  "float_of_str text =
     (case take_sign text of (neg, body) \<Rightarrow>
        if lower body = ''inf'' \<or> lower body = ''infinity''
          then Some (if neg then NegInf else PosInf)
        else if lower body = ''nan'' then Some NaN
        else
          (case take_digitpart body of (ip, r1) \<Rightarrow>
            (case take_fraction r1 of (fp, r2) \<Rightarrow>
              if ip = [] \<and> fp = [] then None
              else
                (case take_exponent r2 of
                   None \<Rightarrow> None
                 | Some e \<Rightarrow>
                     let m = int_of_digits (ip @ fp);
                         r = scale10 m (e - int (length fp))
                     in Some (to_double (if neg then - r else r))))))"

section \<open>Numeric coercion\<close>

text \<open>
  \<^verbatim>\<open>to_num\<close>: \<^verbatim>\<open>None\<close> stays \<^verbatim>\<open>None\<close>; a number goes through \<^verbatim>\<open>float\<close>; any other
  value goes through \<^verbatim>\<open>str\<close> and \<^verbatim>\<open>strip\<close>, the blank text and the three sentinels
  give \<^verbatim>\<open>None\<close>, a \<^verbatim>\<open>ValueError\<close> of \<^verbatim>\<open>float\<close> is caught and gives \<^verbatim>\<open>None\<close>. A NaN
  or an infinity gives \<^verbatim>\<open>None\<close>. Only \<^verbatim>\<open>ValueError\<close> is caught.
\<close>

definition finite_or_none :: "pyfloat \<Rightarrow> pyfloat option" where
  "finite_or_none number = (if isnan number \<or> isinf number then None else Some number)"

definition to_num :: "pyval \<Rightarrow> pyerror + pyfloat option" where
  "to_num v =
     (case v of
        PyNone \<Rightarrow> Inr None
      | PyInt n \<Rightarrow>
          (case float_of_int n of
             Inl e \<Rightarrow> Inl e
           | Inr number \<Rightarrow> Inr (finite_or_none number))
      | PyFloat x \<Rightarrow> Inr (finite_or_none x)
      | PyStr s \<Rightarrow>
          (let text = strip s in
           if text = [] \<or> text \<in> {''-'', ''NA'', ''N/A''} then Inr None
           else
             (case float_of_str text of
                None \<Rightarrow> Inr None
              | Some number \<Rightarrow> Inr (finite_or_none number))))"

section \<open>Unit converters\<close>

text \<open>
  Both converters normalise the unit with \<^verbatim>\<open>(unit or '').upper().strip()\<close>; the unit is
  \<^verbatim>\<open>None\<close> or a string. The value is \<^verbatim>\<open>None\<close> or a float, as \<^verbatim>\<open>to_num\<close> returns it.
\<close>

definition norm_unit :: "string option \<Rightarrow> string" where
  "norm_unit unit = strip (upper (case unit of None \<Rightarrow> [] | Some u \<Rightarrow> u))"

definition factors :: "(string \<times> real) list" where
  "factors = [(''EV'', 1), (''KEV'', 10 ^ 3), (''MEV'', 10 ^ 6), (''GEV'', 10 ^ 9),
              (''MILLI-EV'', 1 / 10 ^ 3), (''UEV'', 1 / 10 ^ 6), (''NEV'', 1 / 10 ^ 9)]"

definition boltzmann_ev :: real where
  "boltzmann_ev = 8617333262 / 10 ^ 14"

definition boltzmann_kev :: real where
  "boltzmann_kev = 8617333262 / 10 ^ 17"

definition energy_to_ev :: "pyfloat option \<Rightarrow> string option \<Rightarrow> pyfloat option" where
  "energy_to_ev v unit =
     (case v of
        None \<Rightarrow> None
      | Some x \<Rightarrow>
          (let u = norm_unit unit in
           case map_of factors u of
             Some f \<Rightarrow> Some (fmul x f)
           | None \<Rightarrow> if u = ''K'' then Some (fmul x boltzmann_ev) else Some x))"

definition kt_to_kev :: "pyfloat option \<Rightarrow> string option \<Rightarrow> pyfloat option" where
  "kt_to_kev v unit =
     (case v of
        None \<Rightarrow> None
      | Some x \<Rightarrow>
          (let u = norm_unit unit in
           if u = ''KEV'' then Some x
           else if u = ''EV'' then Some (fdiv x (10 ^ 3))
           else if u = ''MEV'' then Some (fmul x (10 ^ 3))
           else if u = ''GEV'' then Some (fmul x (10 ^ 6))
           else if u = ''K'' then Some (fmul x boltzmann_kev)
           else Some x))"

section \<open>Target parser\<close>

text \<open>
  \<^verbatim>\<open>ELEMENTS\<close> is the symbol string split at white space; \<^verbatim>\<open>SYMBOL_TO_Z\<close> maps
  each symbol to its position plus one (a later position would win for a repeated symbol).
\<close>

definition ELEMENTS :: "string list" where
  "ELEMENTS =
    [''H'', ''HE'', ''LI'', ''BE'', ''B'', ''C'', ''N'', ''O'', ''F'', ''NE'', ''NA'',
     ''MG'', ''AL'', ''SI'', ''P'', ''S'', ''CL'', ''AR'', ''K'', ''CA'', ''SC'', ''TI'',
     ''V'', ''CR'', ''MN'', ''FE'', ''CO'', ''NI'', ''CU'', ''ZN'', ''GA'', ''GE'', ''AS'',
     ''SE'', ''BR'', ''KR'', ''RB'', ''SR'', ''Y'', ''ZR'', ''NB'', ''MO'', ''TC'', ''RU'',
     ''RH'', ''PD'', ''AG'', ''CD'', ''IN'', ''SN'', ''SB'', ''TE'', ''I'', ''XE'', ''CS'',
     ''BA'', ''LA'', ''CE'', ''PR'', ''ND'', ''PM'', ''SM'', ''EU'', ''GD'', ''TB'',
     ''DY'', ''HO'', ''ER'', ''TM'', ''YB'', ''LU'', ''HF'', ''TA'', ''W'', ''RE'', ''OS'',
     ''IR'', ''PT'', ''AU'', ''HG'', ''TL'', ''PB'', ''BI'', ''PO'', ''AT'', ''RN'',
     ''FR'', ''RA'', ''AC'', ''TH'', ''PA'', ''U'', ''NP'', ''PU'', ''AM'', ''CM'', ''BK'',
     ''CF'', ''ES'', ''FM'', ''MD'', ''NO'', ''LR'', ''RF'', ''DB'', ''SG'', ''BH'',
     ''HS'', ''MT'', ''DS'', ''RG'', ''CN'', ''NH'', ''FL'', ''MC'', ''LV'', ''TS'',
     ''OG'']"

definition SYMBOL_TO_Z :: "string \<Rightarrow> int option" where
  "SYMBOL_TO_Z = map_of (rev (zip ELEMENTS (map int [1 ..< Suc (length ELEMENTS)])))"

text \<open>
  The regular expression \<^verbatim>\<open>^([A-Z]{1,3})-(\d+)(?:-M(\d*)?)?$\<close> under \<^verbatim>\<open>re.match\<close>,
  piece by piece. The letters are followed by a dash and the digits by a dash or the end, so
  both runs are maximal. In Python \<^verbatim>\<open>$\<close> matches at the end of the string and also just
  before a line feed that ends the string. The result holds the three groups; the third is
  \<open>None\<close> when the \<^verbatim>\<open>-M\<close> part is absent.
\<close>

definition is_upper :: "char \<Rightarrow> bool" where
  "is_upper c = (c \<in> set upper_letters)"

definition at_dollar :: "string \<Rightarrow> bool" where
  "at_dollar s = (s = [] \<or> s = [CHR 0x0A])"

definition match_meta :: "string \<Rightarrow> string option option" where
  "match_meta s =
     (if at_dollar s then Some None
      else if startswith s ''-M'' then
        (let ds = takeWhile is_digit (drop 2 s);
             rest = dropWhile is_digit (drop 2 s)
         in if at_dollar rest then Some (Some ds) else None)
      else None)"

definition match_target :: "string \<Rightarrow> (string \<times> string \<times> string option) option" where
  "match_target s =
     (let symbol = takeWhile is_upper s; r1 = dropWhile is_upper s in
      if length symbol < 1 \<or> 3 < length symbol then None
      else if \<not> startswith r1 ''-'' then None
      else
        (let mass = takeWhile is_digit (drop 1 r1); r2 = dropWhile is_digit (drop 1 r1) in
         if mass = [] then None
         else
           (case match_meta r2 of
              None \<Rightarrow> None
            | Some meta_state \<Rightarrow> Some (symbol, mass, meta_state))))"

text \<open>
  \<^verbatim>\<open>parse_target\<close>: the argument is \<^verbatim>\<open>None\<close> or a string (\<^verbatim>\<open>target or ''\<close>). The
  state is \<^verbatim>\<open>int(meta_state)\<close> when the group is a non-empty string, 1 when it is the
  empty string and 0 when it is \<^verbatim>\<open>None\<close>; then \<^verbatim>\<open>int(mass)\<close> is taken. Either
  \<^verbatim>\<open>int\<close> may raise.
\<close>

definition parse_target :: "string option \<Rightarrow> pyerror + (int \<times> int \<times> int) option" where
  "parse_target target =
     (case match_target (case target of None \<Rightarrow> [] | Some t \<Rightarrow> t) of
        None \<Rightarrow> Inr None
      | Some (symbol, mass, meta_state) \<Rightarrow>
          (case SYMBOL_TO_Z symbol of
             None \<Rightarrow> Inr None
           | Some z \<Rightarrow>
               bind_err
                 (case meta_state of
                    None \<Rightarrow> Inr 0
                  | Some ds \<Rightarrow> if ds = [] then Inr 1 else py_int ds)
                 (\<lambda>state. bind_err (py_int mass) (\<lambda>a. Inr (Some (z, a, state))))))"

section \<open>Column resolution and point extraction\<close>

text \<open>\<^verbatim>\<open>labels.index(candidate)\<close>, guarded by \<^verbatim>\<open>candidate in labels\<close>.\<close>

fun index_of :: "string list \<Rightarrow> string \<Rightarrow> nat option" where
  "index_of [] c = None"
| "index_of (l # ls) c = (if l = c then Some 0 else map_option Suc (index_of ls c))"

fun find_index :: "string list \<Rightarrow> string list \<Rightarrow> nat option" where
  "find_index lbls [] = None"
| "find_index lbls (candidate # candidates) =
     (if candidate \<in> set lbls then index_of lbls candidate else find_index lbls candidates)"

text \<open>
  A dataset has the attributes \<^verbatim>\<open>labels\<close>, \<^verbatim>\<open>units\<close> and \<^verbatim>\<open>data\<close>; a missing
  attribute reads as the empty list. A label or unit is \<^verbatim>\<open>None\<close> or a string. A row of
  \<^verbatim>\<open>data\<close> is a list or tuple of cells, or some other object, which the loop skips.
\<close>

datatype pyrow = Seq "pyval list" | NotSeq

record dataset =
  labels :: "string option list"
  units :: "string option list"
  data :: "pyrow list"

text \<open>A point is the tuple \<^verbatim>\<open>(point_index, energy_ev, kt_kev, value, uncertainty)\<close>.\<close>

record point =
  point_index :: int
  energy_ev :: "pyfloat option"
  kt_kev :: "pyfloat option"
  pvalue :: pyfloat
  uncertainty :: "pyfloat option"

text \<open>\<^verbatim>\<open>str(item).upper() if item is not None else ''\<close>.\<close>

definition norm_label :: "string option \<Rightarrow> string" where
  "norm_label item = (case item of None \<Rightarrow> [] | Some l \<Rightarrow> upper l)"

text \<open>
  The value column. \<^verbatim>\<open>energy_labels\<close> is the set of the source; the loop over
  \<^verbatim>\<open>enumerate(labels)\<close> skips a label that contains \<^verbatim>\<open>ERR\<close>, starts with \<^verbatim>\<open>D(\<close> or
  is in that set, and stops at the first label it does not skip.
\<close>

definition energy_labels :: "string list" where
  "energy_labels = [''EN'', ''ENERGY'', ''EN-LAB'', ''EN-CM'', ''EN-RSL'', ''KT'', ''KT-K'']"

definition skipped_label :: "string \<Rightarrow> bool" where
  "skipped_label l = (contains l ''ERR'' \<or> startswith l ''D('' \<or> l \<in> set energy_labels)"

fun first_kept :: "nat \<Rightarrow> string list \<Rightarrow> nat option" where
  "first_kept i [] = None"
| "first_kept i (l # ls) = (if skipped_label l then first_kept (Suc i) ls else Some i)"

definition data_index :: "string list \<Rightarrow> nat option" where
  "data_index lbls =
     (case find_index lbls [''DATA''] of
        Some i \<Rightarrow> Some i
      | None \<Rightarrow> first_kept 0 lbls)"

text \<open>The columns resolved once per dataset, and the normalised units.\<close>

record columns =
  c_data :: nat
  c_energy :: "nat option"
  c_kt :: "nat option"
  c_err :: "nat option"
  c_plus :: "nat option"
  c_minus :: "nat option"
  c_units :: "string list"

definition resolve_columns :: "string list \<Rightarrow> string list \<Rightarrow> nat \<Rightarrow> columns" where
  "resolve_columns lbls us di =
     \<lparr>c_data = di,
      c_energy = find_index lbls [''EN'', ''ENERGY'', ''EN-LAB'', ''EN-CM'', ''EN-RSL'', ''E''],
      c_kt = find_index lbls [''KT'', ''KT-K'', ''K-T''],
      c_err = find_index lbls [''DATA-ERR'', ''D(DATA)'', ''ERR'', ''ERR-T'', ''STAT-W G''],
      c_plus = find_index lbls [''+DATA-ERR''],
      c_minus = find_index lbls [''-DATA-ERR''],
      c_units = us\<rparr>"

text \<open>\<^verbatim>\<open>units[i] if i < len(units) else ''\<close>.\<close>

definition unit_at :: "string list \<Rightarrow> nat \<Rightarrow> string" where
  "unit_at us i = (if i < length us then us ! i else [])"

text \<open>An index that is not \<^verbatim>\<open>None\<close> and lies in_row the row.\<close>

definition in_row :: "nat option \<Rightarrow> pyval list \<Rightarrow> bool" where
  "in_row idx row = (case idx of None \<Rightarrow> False | Some i \<Rightarrow> i < length row)"

text \<open>The energy and the temperature of a row, by the quantity.\<close>

definition row_energy_kt ::
  "columns \<Rightarrow> string \<Rightarrow> pyval list \<Rightarrow> pyerror + (pyfloat option \<times> pyfloat option)" where
  "row_energy_kt c quantity row =
     (if quantity = ''MACS'' then
        (if in_row (c_kt c) row then
           bind_err (to_num (row ! the (c_kt c)))
             (\<lambda>x. Inr (None, kt_to_kev x (Some (unit_at (c_units c) (the (c_kt c))))))
         else Inr (None, None))
      else if in_row (c_energy c) row then
        bind_err (to_num (row ! the (c_energy c)))
          (\<lambda>x. Inr (energy_to_ev x (Some (unit_at (c_units c) (the (c_energy c)))), None))
      else Inr (None, None))"

text \<open>The uncertainty of a row: the single error column when it is resolved and in_row
  the row, otherwise the plus and minus pair when both are.\<close>

definition row_uncertainty :: "columns \<Rightarrow> pyval list \<Rightarrow> pyerror + pyfloat option" where
  "row_uncertainty c row =
     (if in_row (c_err c) row then
        bind_err (to_num (row ! the (c_err c)))
          (\<lambda>err_value. Inr (case err_value of None \<Rightarrow> None | Some e \<Rightarrow> Some (fabs e)))
      else if in_row (c_plus c) row \<and> in_row (c_minus c) row then
        bind_err (to_num (row ! the (c_plus c)))
          (\<lambda>plus. bind_err (to_num (row ! the (c_minus c)))
             (\<lambda>minus. Inr (case (plus, minus) of
                              (Some p, Some m) \<Rightarrow> Some (fdiv (fadd (fabs p) (fabs m)) 2)
                            | _ \<Rightarrow> None)))
      else Inr None)"

text \<open>One iteration of the loop: \<open>Inr None\<close> when the row is skipped.\<close>

definition extract_row :: "columns \<Rightarrow> string \<Rightarrow> int \<Rightarrow> pyrow \<Rightarrow> pyerror + point option" where
  "extract_row c quantity idx row =
     (case row of
        NotSeq \<Rightarrow> Inr None
      | Seq r \<Rightarrow>
          bind_err (if c_data c < length r then to_num (r ! c_data c) else Inr None)
            (\<lambda>v. case v of
                    None \<Rightarrow> Inr None
                  | Some x \<Rightarrow>
                      bind_err (row_energy_kt c quantity r)
                        (\<lambda>ek. bind_err (row_uncertainty c r)
                           (\<lambda>unc. Inr (Some \<lparr>point_index = idx, energy_ev = fst ek,
                                               kt_kev = snd ek, pvalue = x,
                                               uncertainty = unc\<rparr>)))))"

text \<open>The loop over \<^verbatim>\<open>enumerate(rows)\<close>, from index \<open>idx\<close> on.\<close>

fun extract_rows :: "columns \<Rightarrow> string \<Rightarrow> int \<Rightarrow> pyrow list \<Rightarrow> pyerror + point list" where
  "extract_rows c quantity idx [] = Inr []"
| "extract_rows c quantity idx (row # rows) =
     bind_err (extract_row c quantity idx row)
       (\<lambda>p. bind_err (extract_rows c quantity (idx + 1) rows)
          (\<lambda>ps. Inr (case p of None \<Rightarrow> ps | Some pt \<Rightarrow> pt # ps)))"

text \<open>The slice \<^verbatim>\<open>xs[:n]\<close>: a negative \<open>n\<close> counts from the end.\<close>

definition slice_to :: "'a list \<Rightarrow> int \<Rightarrow> 'a list" where
  "slice_to xs n = (if 0 \<le> n then take (nat n) xs else take (length xs - nat (- n)) xs)"

definition extract_points :: "dataset \<Rightarrow> string \<Rightarrow> int \<Rightarrow> pyerror + point list" where
  "extract_points ds quantity max_points =
     (let lbls = map norm_label (labels ds); us = map norm_label (units ds) in
      if lbls = [] then Inr []
      else
        (case data_index lbls of
           None \<Rightarrow> Inr []
         | Some di \<Rightarrow>
             extract_rows (resolve_columns lbls us di) quantity 0
               (slice_to (data ds) max_points)))"

section \<open>Example datasets\<close>

text \<open>The dataset of the end-to-end example of the specification, followed by a row that
  is not a sequence, a row that is too short and a row of strings.\<close>

definition sig_dataset :: dataset where
  "sig_dataset =
     \<lparr>labels = [Some ''EN'', Some ''DATA'', Some ''DATA-ERR''],
      units = [Some ''MEV'', Some ''B'', Some ''B''],
      data = [Seq [PyFloat (Finite 1), PyFloat (Finite 2.5), PyFloat (Finite 0.1)],
              NotSeq,
              Seq [PyInt 3],
              Seq [PyStr ''2'', PyStr ''7e1'', PyStr '' NA '']]\<rparr>"

text \<open>A capture-rate dataset without a \<^verbatim>\<open>DATA\<close> heading; its value column is the
  first heading that is neither an error nor an energy or temperature heading.\<close>

definition macs_dataset :: dataset where
  "macs_dataset =
     \<lparr>labels = [Some ''kt'', Some ''en'', Some ''err-s'', Some ''d(macs)'', Some ''macs''],
      units = [Some ''ev'', Some ''kev'', None, None, Some ''mb''],
      data = [Seq [PyFloat (Finite 30000), PyFloat (Finite 5), PyNone, PyNone,
                   PyFloat (Finite 12)]]\<rparr>"

text \<open>A dataset with a single error column and a plus and minus pair; the single column
  is blank in the first row and too far right for the second row.\<close>

definition err_dataset :: dataset where
  "err_dataset =
     \<lparr>labels = [Some ''DATA'', Some ''+DATA-ERR'', Some ''-DATA-ERR'', Some ''ERR-T''],
      units = [],
      data = [Seq [PyFloat (Finite 4), PyFloat (Finite 1), PyFloat (Finite (- 3)), PyStr ''-''],
              Seq [PyFloat (Finite 4), PyFloat (Finite 1), PyFloat (Finite (- 3))]]\<rparr>"

text \<open>Two rows under one \<^verbatim>\<open>DATA\<close> heading.\<close>

definition two_row_dataset :: dataset where
  "two_row_dataset =
     \<lparr>labels = [Some ''DATA''], units = [],
      data = [Seq [PyFloat (Finite 1)], Seq [PyFloat (Finite 2)]]\<rparr>"

text \<open>A dataset whose headings are all energy or error headings: no value column.\<close>

definition err_only_dataset :: dataset where
  "err_only_dataset =
     \<lparr>labels = [Some ''EN'', Some ''DATA-ERR'', Some ''d(en)''],
      units = [Some ''EV'', None, None],
      data = [Seq [PyFloat (Finite 1), PyFloat (Finite 2), PyFloat (Finite 3)]]\<rparr>"

text \<open>A cross-section dataset whose energy heading is \<^verbatim>\<open>E\<close>, the last candidate of the
  energy column.\<close>

definition e_dataset :: dataset where
  "e_dataset =
     \<lparr>labels = [Some ''E'', Some ''DATA-ERR''],
      units = [Some ''MEV'', Some ''B''],
      data = [Seq [PyFloat (Finite 2), PyFloat (Finite 0.5)]]\<rparr>"

section \<open>Build driver\<close>

text \<open>
  The build driver (\<^verbatim>\<open>build-exfor-from-x4i3.py\<close>) reads rows
  \<^verbatim>\<open>(entry, subent, pointer, target, projectile, reaction, quantity, author)\<close> from the
  index; a column that may be \<^verbatim>\<open>NULL\<close> where the driver allows for it is an option.
  The query keeps only rows whose projectile and quantity are not \<^verbatim>\<open>NULL\<close>.
\<close>

record index_row =
  row_entry :: string
  row_subent :: string
  row_pointer :: "string option"
  row_target :: "string option"
  row_projectile :: string
  row_reaction :: "string option"
  row_quantity :: string
  row_author :: "string option"

definition PROJECTILE_MAP :: "string \<Rightarrow> string option" where
  "PROJECTILE_MAP =
     map_of [(''N'', ''n''), (''P'', ''p''), (''G'', ''g''), (''D'', ''d''), (''A'', ''a''),
             (''HE3'', ''h''), (''H'', ''h'')]"

definition SUPPORTED_Q :: "string set" where
  "SUPPORTED_Q = {''SIG'', ''DA'', ''DE'', ''FY'', ''MACS''}"

text \<open>
  The record loader is an external collaborator. For an entry identifier it finds no entry,
  raises (any exception of \<^verbatim>\<open>retrieve\<close> or \<^verbatim>\<open>getSimplifiedDataSets\<close> is caught), or
  gives the map from \<^verbatim>\<open>(entry, subent, pointer)\<close> to the datasets: a dictionary, here
  the list of its items in the order of its keys.
\<close>

type_synonym dataset_key = "string \<times> string \<times> string"

type_synonym dataset_map = "(dataset_key \<times> dataset) list"

datatype load_result = Missing | LoadError | Loaded dataset_map

text \<open>The rows of the output tables \<^verbatim>\<open>exfor_entries\<close> (the year is always \<^verbatim>\<open>NULL\<close>)
  and \<^verbatim>\<open>exfor_points\<close>.\<close>

record entry_row =
  entry_id :: string
  subentry_id :: string
  target_Z :: int
  target_A :: int
  state :: int
  projectile :: string
  reaction :: "string option"
  quantity_code :: string
  reference :: "string option"







text \<open>\<^verbatim>\<open>(pointer or ' ').strip() or ' '\<close>.\<close>

definition norm_pointer :: "string option \<Rightarrow> string" where
  "norm_pointer pointer =
     (let s = strip (case pointer of None \<Rightarrow> '' '' | Some p \<Rightarrow> if p = [] then '' '' else p)
      in if s = [] then '' '' else s)"

text \<open>\<^verbatim>\<open>subent if pointer == ' ' else f"{subent}:{pointer}"\<close>.\<close>

definition derived_subentry_id :: "string \<Rightarrow> string \<Rightarrow> string" where
  "derived_subentry_id subent pointer =
     (if pointer = '' '' then subent else subent @ '':'' @ pointer)"

text \<open>
  The dataset of a row: the one under the exact key, otherwise the one under the first key
  of the map with the same subentry (\<^verbatim>\<open>by_subent[subent][0]\<close>).
\<close>

definition lookup_dataset :: "dataset_map \<Rightarrow> dataset_key \<Rightarrow> dataset option" where
  "lookup_dataset dataset_map k =
     (case map_of dataset_map k of
        Some d \<Rightarrow> Some d
      | None \<Rightarrow>
          (case filter (\<lambda>k'. fst (snd k') = fst (snd k)) (map fst dataset_map) of
             [] \<Rightarrow> None
           | k0 # _ \<Rightarrow> map_of dataset_map k0))"

text \<open>
  The body of the loop over the rows of an entry, up to the test against
  \<^verbatim>\<open>written_entries\<close>: the row is skipped under one of four counters, or it yields the
  entry record and the points to insert. \<^verbatim>\<open>parse_target\<close> and \<^verbatim>\<open>extract_points\<close>
  may raise; nothing in the loop catches an exception.
\<close>

datatype skip = NonNuclideOrQuantity | UnknownProjectile | MissingDataset | EmptyPoints

definition prepare_row ::
  "dataset_map \<Rightarrow> int \<Rightarrow> index_row \<Rightarrow> pyerror + (skip + entry_row \<times> point list)" where
  "prepare_row dataset_map max_points row =
     bind_err (parse_target (row_target row))
       (\<lambda>target.
          case target of
            None \<Rightarrow> Inr (Inl NonNuclideOrQuantity)
          | Some (z, a, st) \<Rightarrow>
              if row_quantity row \<notin> SUPPORTED_Q then Inr (Inl NonNuclideOrQuantity)
              else
                (case PROJECTILE_MAP (row_projectile row) of
                   None \<Rightarrow> Inr (Inl UnknownProjectile)
                 | Some proj \<Rightarrow>
                     (let pointer = norm_pointer (row_pointer row) in
                      case lookup_dataset dataset_map (row_entry row, row_subent row, pointer) of
                        None \<Rightarrow> Inr (Inl MissingDataset)
                      | Some ds \<Rightarrow>
                          bind_err (extract_points ds (row_quantity row) max_points)
                            (\<lambda>points.
                               if points = [] then Inr (Inl EmptyPoints)
                               else Inr (Inr
                                 (\<lparr>entry_id = row_entry row,
                                   subentry_id = derived_subentry_id (row_subent row) pointer,
                                   target_Z = z, target_A = a, state = st,
                                   projectile = proj, reaction = row_reaction row,
                                   quantity_code = row_quantity row,
                                   reference = row_author row\<rparr>, points))))))"














subsection \<open>First write wins\<close>

text \<open>
  The candidates of a run, in the order of the rows: a row is a candidate when its entry
  loads and the row reaches the test against \<^verbatim>\<open>written_entries\<close>. Keeping the first
  candidate of every key is the deduplication the specification describes.
\<close>

definition row_cand :: "dataset_map \<Rightarrow> int \<Rightarrow> index_row \<Rightarrow> (entry_row \<times> point list) list" where
  "row_cand dataset_map max_points row =
     (case prepare_row dataset_map max_points row of
        Inr (Inr c) \<Rightarrow> [c]
      | _ \<Rightarrow> [])"

definition row_candidates ::
  "(string option \<Rightarrow> load_result) \<Rightarrow> int \<Rightarrow> index_row \<Rightarrow> (entry_row \<times> point list) list" where
  "row_candidates retrieve max_points row =
     (case retrieve (Some (row_entry row)) of
        Loaded dataset_map \<Rightarrow> row_cand dataset_map max_points row
      | _ \<Rightarrow> [])"

definition candidates ::
  "(string option \<Rightarrow> load_result) \<Rightarrow> int \<Rightarrow> index_row list \<Rightarrow> (entry_row \<times> point list) list" where
  "candidates retrieve max_points rows = concat (map (row_candidates retrieve max_points) rows)"













section \<open>Publishing the output\<close>














section \<open>Evaluation rules\<close>

lemmas string_defs =
  strip_def isspace_def upper_def upper_char_def lower_def lower_char_def
  upper_letters_def lower_letters_def upper_latin_def lower_latin_def is_digit_def
  is_upper_def startswith_def int_of_digits_def digit_val_def

lemmas float_defs =
  to_double_def float_overflow_def float_of_int_def float_of_str_def take_sign_def
  take_fraction_def take_exponent_def scale10_def finite_or_none_def

lemmas unit_defs =
  norm_unit_def factors_def boltzmann_ev_def boltzmann_kev_def

section \<open>Properties of the numeric coercion\<close>

lemma finite_or_none_finite:
  "finite_or_none x = Some y \<Longrightarrow> \<exists>r. y = Finite r"
  by (cases x) (auto simp: finite_or_none_def)

lemma to_num_finite:
  "to_num v = Inr (Some y) \<Longrightarrow> \<exists>r. y = Finite r"
  by (auto simp: to_num_def Let_def dest: finite_or_none_finite
      split: pyval.splits sum.splits option.splits if_splits)

lemma to_num_sentinels:
  "to_num PyNone = Inr None"
  "to_num (PyStr ''-'') = Inr None"
  "to_num (PyStr ''NA'') = Inr None"
  "to_num (PyStr ''N/A'') = Inr None"
  "to_num (PyStr []) = Inr None"
  "to_num (PyStr ''   '') = Inr None"
  "to_num (PyStr ''nan'') = Inr None"
  "to_num (PyStr ''abc'') = Inr None"
  "to_num (PyFloat NaN) = Inr None"
  "to_num (PyFloat PosInf) = Inr None"
  by (simp_all add: to_num_def string_defs float_defs)

lemma to_num_numeric_string:
  "to_num (PyStr ''3.14'') = Inr (Some (Finite 3.14))"
  by (simp add: to_num_def string_defs float_defs)

text \<open>
  C7. The coercion is claimed to return a finite float or \<^verbatim>\<open>None\<close> for every input.
  For the integer \<open>2^1024\<close> the conversion \<^verbatim>\<open>float(value)\<close> raises
  \<^verbatim>\<open>OverflowError\<close>, which \<^verbatim>\<open>to_num\<close> does not catch: it returns neither.
\<close>

theorem to_num_huge_int_raises:
  "to_num (PyInt (2 ^ 1024)) = Inl OverflowError"
  by (simp add: to_num_def float_of_int_def float_overflow_def)

section \<open>Properties of the unit converters\<close>

lemma fdiv_as_fmul: "fdiv x c = fmul x (1 / c)"
  by (cases x) simp_all

text \<open>
  The tables of the two converters, as the code has them. Both return \<^verbatim>\<open>None\<close> for
  \<^verbatim>\<open>None\<close>. The energy converter multiplies by the power of ten of its table for EV, KEV,
  MEV, GEV, MILLI-EV, UEV and NEV and by \<open>8.617333262e-5\<close> for K; the temperature
  converter knows KEV (the value itself), EV, MEV and GEV and multiplies by
  \<open>8.617333262e-8\<close> for K. Every other unit is unknown to the converter and the value is
  returned unchanged. The unit is compared after \<^verbatim>\<open>upper\<close> and \<^verbatim>\<open>strip\<close>. The three
  examples of the specification hold.
\<close>

lemma converter_tables:
  "energy_to_ev None unit = None \<and>
   kt_to_kev None unit = None \<and>
   energy_to_ev (Some x) unit =
     Some (let u = norm_unit unit in
           if u = ''EV'' then fmul x 1
           else if u = ''KEV'' then fmul x (10 ^ 3)
           else if u = ''MEV'' then fmul x (10 ^ 6)
           else if u = ''GEV'' then fmul x (10 ^ 9)
           else if u = ''MILLI-EV'' then fmul x (1 / 10 ^ 3)
           else if u = ''UEV'' then fmul x (1 / 10 ^ 6)
           else if u = ''NEV'' then fmul x (1 / 10 ^ 9)
           else if u = ''K'' then fmul x (8.617333262 / 10 ^ 5)
           else x) \<and>
   kt_to_kev (Some x) unit =
     Some (let u = norm_unit unit in
           if u = ''KEV'' then x
           else if u = ''EV'' then fmul x (1 / 10 ^ 3)
           else if u = ''MEV'' then fmul x (10 ^ 3)
           else if u = ''GEV'' then fmul x (10 ^ 6)
           else if u = ''K'' then fmul x (8.617333262 / 10 ^ 8)
           else x) \<and>
   energy_to_ev (Some (Finite 1000)) (Some ''KEV'') = Some (Finite 1000000) \<and>
   energy_to_ev (Some (Finite 1)) (Some ''K'') = Some (Finite (8.617333262 / 10 ^ 5)) \<and>
   energy_to_ev (Some (Finite 5)) (Some ''XYZ'') = Some (Finite 5)"
proof -
  have none: "energy_to_ev None unit = None" "kt_to_kev None unit = None"
    by (simp_all add: energy_to_ev_def kt_to_kev_def)
  have en: "energy_to_ev (Some x) unit =
     Some (let u = norm_unit unit in
           if u = ''EV'' then fmul x 1
           else if u = ''KEV'' then fmul x (10 ^ 3)
           else if u = ''MEV'' then fmul x (10 ^ 6)
           else if u = ''GEV'' then fmul x (10 ^ 9)
           else if u = ''MILLI-EV'' then fmul x (1 / 10 ^ 3)
           else if u = ''UEV'' then fmul x (1 / 10 ^ 6)
           else if u = ''NEV'' then fmul x (1 / 10 ^ 9)
           else if u = ''K'' then fmul x (8.617333262 / 10 ^ 5)
           else x)"
    by (simp add: energy_to_ev_def Let_def factors_def boltzmann_ev_def)
  have kt: "kt_to_kev (Some x) unit =
     Some (let u = norm_unit unit in
           if u = ''KEV'' then x
           else if u = ''EV'' then fmul x (1 / 10 ^ 3)
           else if u = ''MEV'' then fmul x (10 ^ 3)
           else if u = ''GEV'' then fmul x (10 ^ 6)
           else if u = ''K'' then fmul x (8.617333262 / 10 ^ 8)
           else x)"
    by (simp add: kt_to_kev_def Let_def fdiv_as_fmul boltzmann_kev_def)
  have ex1: "energy_to_ev (Some (Finite 1000)) (Some ''KEV'') = Some (Finite 1000000)"
    by (simp add: energy_to_ev_def unit_defs string_defs to_double_def float_overflow_def)
  have ex2: "energy_to_ev (Some (Finite 1)) (Some ''K'') = Some (Finite (8.617333262 / 10 ^ 5))"
    by (simp add: energy_to_ev_def unit_defs string_defs to_double_def float_overflow_def)
  have ex3: "energy_to_ev (Some (Finite 5)) (Some ''XYZ'') = Some (Finite 5)"
    by (simp add: energy_to_ev_def unit_defs string_defs)
  from none en kt ex1 ex2 ex3 show ?thesis by blast
qed

text \<open>
  C6. A recognised unit is claimed to multiply the value by its power of ten, for eV, keV,
  MeV, GeV, milli-eV, micro-eV and nano-eV, in both converters. The temperature converter
  has no branch for MILLI-EV, UEV and NEV: a temperature of 2 milli-eV is returned as
  2 (keV) instead of \<open>2e-6\<close>, while the energy converter multiplies 2 milli-eV by
  \<open>1e-3\<close>.
\<close>

theorem kt_to_kev_small_units_unchanged:
  "kt_to_kev (Some (Finite 2)) (Some ''MILLI-EV'') = Some (Finite 2) \<and>
   kt_to_kev (Some (Finite 2)) (Some ''UEV'') = Some (Finite 2) \<and>
   kt_to_kev (Some (Finite 2)) (Some ''NEV'') = Some (Finite 2) \<and>
   kt_to_kev (Some (Finite 2)) (Some ''EV'') = Some (Finite (2 / 10 ^ 3)) \<and>
   energy_to_ev (Some (Finite 2)) (Some ''MILLI-EV'') = Some (Finite (2 / 10 ^ 3))"
  by (simp add: kt_to_kev_def energy_to_ev_def unit_defs string_defs to_double_def
      float_overflow_def)

section \<open>Properties of the target parser\<close>

lemma elements_table: "length ELEMENTS = 118 \<and> distinct ELEMENTS"
  by (simp add: ELEMENTS_def)

lemmas target_defs =
  parse_target_def match_target_def match_meta_def at_dollar_def SYMBOL_TO_Z_def ELEMENTS_def
  py_int_def max_str_digits_def bind_err_def


text \<open>
  C2. The parser is claimed to succeed exactly on the strings of the form SYMBOL-MASS or
  SYMBOL-MASS-Mn. The pattern ends with \<^verbatim>\<open>$\<close>, which also matches before a final line
  feed: the string \<^verbatim>\<open>"FE-56\n"\<close> is not of that form and is parsed like \<^verbatim>\<open>"FE-56"\<close>.
\<close>

theorem parse_target_trailing_newline:
  "parse_target (Some ''FE-56\<newline>'') = Inr (Some (26, 56, 0))"
  by (simp add: target_defs string_defs)

section \<open>Properties of the point extraction\<close>

lemmas extract_defs =
  extract_points_def data_index_def resolve_columns_def extract_row_def row_energy_kt_def
  row_uncertainty_def in_row_def unit_at_def slice_to_def bind_err_def norm_label_def
  skipped_label_def energy_labels_def to_num_def energy_to_ev_def kt_to_kev_def

subsection \<open>The examples, evaluated\<close>

lemma sig_points:
  "extract_points sig_dataset ''SIG'' 5000 =
     Inr [\<lparr>point_index = 0, energy_ev = Some (Finite 1000000), kt_kev = None,
            pvalue = Finite 2.5, uncertainty = Some (Finite 0.1)\<rparr>,
          \<lparr>point_index = 3, energy_ev = Some (Finite 2000000), kt_kev = None,
            pvalue = Finite 70, uncertainty = None\<rparr>]"
  by (simp add: sig_dataset_def extract_defs unit_defs string_defs float_defs)

lemma macs_points:
  "extract_points macs_dataset ''MACS'' 5000 =
     Inr [\<lparr>point_index = 0, energy_ev = None, kt_kev = Some (Finite 30),
            pvalue = Finite 12, uncertainty = None\<rparr>]"
  by (simp add: macs_dataset_def extract_defs unit_defs string_defs float_defs)

lemma err_points:
  "extract_points err_dataset ''SIG'' 5000 =
     Inr [\<lparr>point_index = 0, energy_ev = None, kt_kev = None,
            pvalue = Finite 4, uncertainty = None\<rparr>,
          \<lparr>point_index = 1, energy_ev = None, kt_kev = None,
            pvalue = Finite 4, uncertainty = Some (Finite 2)\<rparr>]"
  by (simp add: err_dataset_def extract_defs unit_defs string_defs float_defs)

lemma two_row_points:
  "extract_points two_row_dataset ''SIG'' (- 1) =
     Inr [\<lparr>point_index = 0, energy_ev = None, kt_kev = None,
            pvalue = Finite 1, uncertainty = None\<rparr>]"
  by (simp add: two_row_dataset_def extract_defs unit_defs string_defs float_defs)

subsection \<open>The loop\<close>

lemma bind_err_Inr: "bind_err m f = Inr y \<longleftrightarrow> (\<exists>x. m = Inr x \<and> f x = Inr y)"
  by (cases m) (simp_all add: bind_err_def)

lemma extract_rows_Cons_Inr:
  "extract_rows c q i (row # rows) = Inr pts \<longleftrightarrow>
     (\<exists>p ps. extract_row c q i row = Inr p \<and> extract_rows c q (i + 1) rows = Inr ps \<and>
             pts = (case p of None \<Rightarrow> ps | Some pt \<Rightarrow> pt # ps))"
  by (auto simp: bind_err_Inr)

lemma extract_row_Some:
  "extract_row c q i row = Inr (Some p) \<Longrightarrow>
     \<exists>r ek. row = Seq r \<and> c_data c < length r \<and> to_num (r ! c_data c) = Inr (Some (pvalue p)) \<and>
            row_energy_kt c q r = Inr ek \<and> energy_ev p = fst ek \<and> kt_kev p = snd ek \<and>
            row_uncertainty c r = Inr (uncertainty p) \<and> point_index p = i"
  by (auto simp: extract_row_def bind_err_Inr split: pyrow.splits option.splits if_splits)

lemma extract_rows_origin:
  "extract_rows c q i rows = Inr pts \<Longrightarrow> p \<in> set pts \<Longrightarrow>
     \<exists>k<length rows. extract_row c q (i + int k) (rows ! k) = Inr (Some p)"
proof (induction rows arbitrary: i pts)
  case Nil
  then show ?case by simp
next
  case (Cons row rows)
  from Cons.prems(1) obtain p0 ps where
    r: "extract_row c q i row = Inr p0" and
    rs: "extract_rows c q (i + 1) rows = Inr ps" and
    pts: "pts = (case p0 of None \<Rightarrow> ps | Some pt \<Rightarrow> pt # ps)"
    unfolding extract_rows_Cons_Inr by blast
  show ?case
  proof (cases "p0 = Some p")
    case True
    with r have "extract_row c q (i + int 0) ((row # rows) ! 0) = Inr (Some p)" by simp
    then show ?thesis by blast
  next
    case False
    with pts Cons.prems(2) have "p \<in> set ps" by (cases p0) auto
    from Cons.IH[OF rs this] obtain k where
      k: "k < length rows" "extract_row c q (i + 1 + int k) (rows ! k) = Inr (Some p)"
      by blast
    then have "Suc k < length (row # rows)"
      "extract_row c q (i + int (Suc k)) ((row # rows) ! Suc k) = Inr (Some p)"
      by (simp_all add: algebra_simps)
    then show ?thesis by blast
  qed
qed

lemma extract_rows_length:
  "extract_rows c q i rows = Inr pts \<Longrightarrow> length pts \<le> length rows"
proof (induction rows arbitrary: i pts)
  case Nil
  then show ?case by simp
next
  case (Cons row rows)
  from Cons.prems obtain p0 ps where
    rs: "extract_rows c q (i + 1) rows = Inr ps" and
    pts: "pts = (case p0 of None \<Rightarrow> ps | Some pt \<Rightarrow> pt # ps)"
    unfolding extract_rows_Cons_Inr by blast
  from Cons.IH[OF rs] pts show ?case by (cases p0) auto
qed

lemma extract_rows_lower:
  assumes "extract_rows c q i rows = Inr pts" "p \<in> set pts"
  shows "i \<le> point_index p"
proof -
  from extract_rows_origin[OF assms] obtain k where
    "extract_row c q (i + int k) (rows ! k) = Inr (Some p)" by blast
  from extract_row_Some[OF this] have "point_index p = i + int k" by blast
  then show ?thesis by simp
qed

lemma extract_rows_increasing:
  "extract_rows c q i rows = Inr pts \<Longrightarrow> sorted_wrt (<) (map point_index pts)"
proof (induction rows arbitrary: i pts)
  case Nil
  then show ?case by simp
next
  case (Cons row rows)
  from Cons.prems obtain p0 ps where
    r: "extract_row c q i row = Inr p0" and
    rs: "extract_rows c q (i + 1) rows = Inr ps" and
    pts: "pts = (case p0 of None \<Rightarrow> ps | Some pt \<Rightarrow> pt # ps)"
    unfolding extract_rows_Cons_Inr by blast
  have sorted: "sorted_wrt (<) (map point_index ps)" by (rule Cons.IH[OF rs])
  show ?case
  proof (cases p0)
    case None
    with pts sorted show ?thesis by simp
  next
    case (Some pt)
    with r have "point_index pt = i" by (auto dest: extract_row_Some)
    moreover have "\<forall>p\<in>set ps. i + 1 \<le> point_index p"
      using extract_rows_lower[OF rs] by blast
    ultimately have "\<forall>p\<in>set ps. point_index pt < point_index p" by auto
    with pts Some sorted show ?thesis by simp
  qed
qed

lemma extract_points_rows:
  "extract_points ds q m = Inr pts \<Longrightarrow> p \<in> set pts \<Longrightarrow>
     \<exists>di. data_index (map norm_label (labels ds)) = Some di \<and>
          extract_rows (resolve_columns (map norm_label (labels ds))
                          (map norm_label (units ds)) di) q 0 (slice_to (data ds) m) = Inr pts"
  by (auto simp: extract_points_def Let_def split: if_splits option.splits)

lemma extract_points_origin:
  assumes "extract_points ds q m = Inr pts" "p \<in> set pts"
  shows "\<exists>di k. data_index (map norm_label (labels ds)) = Some di \<and>
           k < length (slice_to (data ds) m) \<and> point_index p = int k \<and>
           extract_row (resolve_columns (map norm_label (labels ds))
                          (map norm_label (units ds)) di) q (int k)
             (slice_to (data ds) m ! k) = Inr (Some p)"
proof -
  from extract_points_rows[OF assms] obtain di where
    di: "data_index (map norm_label (labels ds)) = Some di" and
    rows: "extract_rows (resolve_columns (map norm_label (labels ds))
                          (map norm_label (units ds)) di) q 0 (slice_to (data ds) m) = Inr pts"
    by blast
  from extract_rows_origin[OF rows assms(2)] obtain k where
    k: "k < length (slice_to (data ds) m)"
       "extract_row (resolve_columns (map norm_label (labels ds))
                          (map norm_label (units ds)) di) q (0 + int k)
             (slice_to (data ds) m ! k) = Inr (Some p)"
    by blast
  from extract_row_Some[OF k(2)] have "point_index p = int k" by auto
  with di k show ?thesis by auto
qed

lemma slice_to_length: "0 \<le> n \<Longrightarrow> int (length (slice_to xs n)) \<le> n"
  by (simp add: slice_to_def)

subsection \<open>Energy and temperature\<close>

lemma row_energy_kt_exclusive:
  "row_energy_kt c q r = Inr ek \<Longrightarrow>
     (q = ''MACS'' \<longrightarrow> fst ek = None) \<and> (q \<noteq> ''MACS'' \<longrightarrow> snd ek = None)"
  by (auto simp: row_energy_kt_def bind_err_Inr split: if_splits)

text \<open>
  C4. Every point that \<^verbatim>\<open>extract_points\<close> returns has no energy when the quantity is
  \<^verbatim>\<open>MACS\<close>, and no temperature when the quantity is anything else.
\<close>

theorem energy_temperature_exclusive:
  assumes "extract_points ds quantity max_points = Inr pts" and "p \<in> set pts"
  shows "(quantity = ''MACS'' \<longrightarrow> energy_ev p = None) \<and>
         (quantity \<noteq> ''MACS'' \<longrightarrow> kt_kev p = None)"
proof -
  from extract_points_origin[OF assms] obtain c k row where
    "extract_row c quantity (int k) row = Inr (Some p)" by blast
  from extract_row_Some[OF this] obtain r ek where
    "row_energy_kt c quantity r = Inr ek" "energy_ev p = fst ek" "kt_kev p = snd ek"
    by blast
  with row_energy_kt_exclusive[of c quantity r ek] show ?thesis by simp
qed

theorem energy_temperature_exclusive_witness:
  "(\<exists>p. extract_points macs_dataset ''MACS'' 5000 = Inr [p] \<and>
        energy_ev p = None \<and> kt_kev p = Some (Finite 30)) \<and>
   (\<exists>p q. extract_points sig_dataset ''SIG'' 5000 = Inr [p, q] \<and>
        kt_kev p = None \<and> energy_ev p = Some (Finite 1000000))"
proof -
  have "energy_ev p = None"
    if "extract_points macs_dataset ''MACS'' 5000 = Inr [p]" for p
    using energy_temperature_exclusive[OF that, of p] by simp
  moreover have "kt_kev p = None"
    if "extract_points sig_dataset ''SIG'' 5000 = Inr [p, q]" for p q
    using energy_temperature_exclusive[OF that, of p] by simp
  ultimately show ?thesis using macs_points sig_points by simp
qed

subsection \<open>Number and order of the points\<close>

lemma extract_points_cases:
  "extract_points ds q m = Inr pts \<Longrightarrow>
     pts = [] \<or> (\<exists>c. extract_rows c q 0 (slice_to (data ds) m) = Inr pts)"
  by (auto simp: extract_points_def Let_def split: if_splits option.splits)

text \<open>
  C5, as the code has it. For a maximum point count that is not negative the list holds at
  most that many points; for every maximum point count the indices of the points are not
  negative and strictly increase along the list.
\<close>

theorem points_bounded_and_increasing:
  assumes "extract_points ds quantity max_points = Inr pts"
  shows "(0 \<le> max_points \<longrightarrow> int (length pts) \<le> max_points) \<and>
         (\<forall>p\<in>set pts. 0 \<le> point_index p) \<and>
         sorted_wrt (<) (map point_index pts)"
proof (cases "pts = []")
  case True
  then show ?thesis by simp
next
  case False
  with extract_points_cases[OF assms] obtain c where
    rows: "extract_rows c quantity 0 (slice_to (data ds) max_points) = Inr pts" by blast
  have "int (length pts) \<le> max_points" if "0 \<le> max_points"
  proof -
    have "int (length pts) \<le> int (length (slice_to (data ds) max_points))"
      using extract_rows_length[OF rows] by simp
    also have "\<dots> \<le> max_points" using that by (rule slice_to_length)
    finally show ?thesis .
  qed
  moreover have "\<forall>p\<in>set pts. 0 \<le> point_index p"
    using extract_rows_lower[OF rows] by blast
  moreover have "sorted_wrt (<) (map point_index pts)"
    by (rule extract_rows_increasing[OF rows])
  ultimately show ?thesis by blast
qed

theorem points_bounded_and_increasing_witness:
  "\<exists>pts. extract_points sig_dataset ''SIG'' 5000 = Inr pts \<and> (0::int) \<le> 5000 \<and>
         int (length pts) \<le> 5000 \<and> map point_index pts = [0, 3] \<and>
         sorted_wrt (<) (map point_index pts)"
  using points_bounded_and_increasing[OF sig_points] sig_points by simp

text \<open>
  C5, as the claim states it, fails for a negative maximum point count: the slice
  \<^verbatim>\<open>data[:max_points]\<close> then drops rows from the end, and with the maximum \<open>-1\<close> a dataset
  of two rows yields one point, which is more than \<open>-1\<close>.
\<close>

theorem points_bound_negative_limit:
  "\<exists>pts. extract_points two_row_dataset ''SIG'' (- 1) = Inr pts \<and>
         \<not> int (length pts) \<le> - 1"
  using two_row_points by simp

subsection \<open>Uncertainty\<close>

lemma float_overflow_pos: "0 < float_overflow"
  by (simp add: float_overflow_def)

lemma to_double_nonneg: "0 \<le> r \<Longrightarrow> nonneg (to_double r)"
  using float_overflow_pos by (auto simp: to_double_def)

lemma fdiv_nonneg: "nonneg x \<Longrightarrow> 0 < c \<Longrightarrow> nonneg (fdiv x c)"
  by (cases x) (auto intro: to_double_nonneg)

lemma fabs_nonneg: "nonneg (fabs (Finite a))"
  by simp

lemma fadd_fabs_nonneg: "nonneg (fadd (fabs (Finite a)) (fabs (Finite b)))"
  by (simp add: to_double_nonneg)

lemma row_uncertainty_nonneg:
  assumes "row_uncertainty c r = Inr (Some u)"
  shows "nonneg u"
proof (cases "in_row (c_err c) r")
  case True
  with assms obtain e where
    e: "to_num (r ! the (c_err c)) = Inr e"
       "(case e of None \<Rightarrow> None | Some x \<Rightarrow> Some (fabs x)) = Some u"
    by (auto simp: row_uncertainty_def bind_err_Inr)
  then obtain x where x: "e = Some x" "u = fabs x" by (cases e) auto
  with e(1) obtain a where "x = Finite a" by (auto dest: to_num_finite)
  with x show ?thesis by simp
next
  case False
  with assms obtain plus minus where
    pm: "to_num (r ! the (c_plus c)) = Inr plus" "to_num (r ! the (c_minus c)) = Inr minus"
        "(case (plus, minus) of (Some p, Some m) \<Rightarrow> Some (fdiv (fadd (fabs p) (fabs m)) 2)
          | _ \<Rightarrow> None) = Some u"
    by (auto simp: row_uncertainty_def bind_err_Inr split: if_splits)
  then obtain p m where p: "plus = Some p" "minus = Some m"
      "u = fdiv (fadd (fabs p) (fabs m)) 2"
    by (cases plus; cases minus) auto
  from pm(1) p(1) obtain a where a: "p = Finite a"
    using to_num_finite by blast
  from pm(2) p(2) obtain b where "m = Finite b"
    using to_num_finite by blast
  with a have "p = Finite a" "m = Finite b" by simp_all
  with p(3) show ?thesis
    using fdiv_nonneg[OF fadd_fabs_nonneg, of 2 a b] by simp
qed

text \<open>
  C9. The uncertainty of every point that \<^verbatim>\<open>extract_points\<close> returns is \<^verbatim>\<open>None\<close> or
  a float \<open>u\<close> with \<^verbatim>\<open>0 <= u\<close> (the sum of the pair may overflow to the positive
  infinity, never to NaN or below zero).
\<close>

theorem uncertainty_nonneg:
  assumes "extract_points ds quantity max_points = Inr pts" and "p \<in> set pts"
  shows "uncertainty p = None \<or> (\<exists>u. uncertainty p = Some u \<and> nonneg u)"
proof -
  from extract_points_origin[OF assms] obtain c k row where
    "extract_row c quantity (int k) row = Inr (Some p)" by blast
  from extract_row_Some[OF this] obtain r where
    "row_uncertainty c r = Inr (uncertainty p)" by blast
  then show ?thesis by (cases "uncertainty p") (auto dest: row_uncertainty_nonneg)
qed

theorem uncertainty_nonneg_witness:
  "\<exists>p q. extract_points err_dataset ''SIG'' 5000 = Inr [p, q] \<and>
         uncertainty p = None \<and> uncertainty q = Some (Finite 2) \<and> nonneg (Finite 2)"
proof -
  have "uncertainty q = None \<or> (\<exists>u. uncertainty q = Some u \<and> nonneg u)"
    if "extract_points err_dataset ''SIG'' 5000 = Inr [p, q]" for p q
    using uncertainty_nonneg[OF that, of q] by simp
  then show ?thesis using err_points by simp
qed

lemma row_uncertainty_single_null:
  "c_err c = Some e \<Longrightarrow> e < length r \<Longrightarrow> to_num (r ! e) = Inr None \<Longrightarrow>
     row_uncertainty c r = Inr None"
  by (simp add: row_uncertainty_def in_row_def bind_err_def)

text \<open>
  C10. When a single error column is resolved for the dataset and lies within a row, and
  its cell in that row coerces to \<^verbatim>\<open>None\<close>, the point of that row has the uncertainty
  \<^verbatim>\<open>None\<close>, whatever the plus and minus columns hold.
\<close>

theorem single_error_column_shadows_pair:
  assumes "extract_points ds quantity max_points = Inr pts" and "p \<in> set pts"
    and "find_index (map norm_label (labels ds))
           [''DATA-ERR'', ''D(DATA)'', ''ERR'', ''ERR-T'', ''STAT-W G''] = Some e"
    and "slice_to (data ds) max_points ! nat (point_index p) = Seq row"
    and "e < length row" and "to_num (row ! e) = Inr None"
  shows "uncertainty p = None"
proof -
  from extract_points_origin[OF assms(1,2)] obtain di k where
    k: "point_index p = int k" and
    row: "extract_row (resolve_columns (map norm_label (labels ds))
            (map norm_label (units ds)) di) quantity (int k)
            (slice_to (data ds) max_points ! k) = Inr (Some p)"
    by blast
  let ?c = "resolve_columns (map norm_label (labels ds)) (map norm_label (units ds)) di"
  from k assms(4) have "slice_to (data ds) max_points ! k = Seq row" by simp
  with extract_row_Some[OF row] have unc: "row_uncertainty ?c row = Inr (uncertainty p)"
    by auto
  have "c_err ?c = Some e" using assms(3) by (simp add: resolve_columns_def)
  from row_uncertainty_single_null[OF this assms(5,6)] unc show ?thesis by simp
qed

theorem single_error_column_shadows_pair_witness:
  "\<exists>p q. extract_points err_dataset ''SIG'' 5000 = Inr [p, q] \<and>
         find_index (map norm_label (labels err_dataset))
           [''DATA-ERR'', ''D(DATA)'', ''ERR'', ''ERR-T'', ''STAT-W G''] = Some 3 \<and>
         slice_to (data err_dataset) 5000 ! nat (point_index p) =
           Seq [PyFloat (Finite 4), PyFloat (Finite 1), PyFloat (Finite (- 3)), PyStr ''-''] \<and>
         to_num (PyStr ''-'') = Inr None \<and>
         to_num (PyFloat (Finite 1)) = Inr (Some (Finite 1)) \<and>
         to_num (PyFloat (Finite (- 3))) = Inr (Some (Finite (- 3))) \<and>
         uncertainty p = None"
proof -
  let ?p = "\<lparr>point_index = 0, energy_ev = None, kt_kev = None,
             pvalue = Finite 4, uncertainty = None\<rparr>"
  have idx: "find_index (map norm_label (labels err_dataset))
           [''DATA-ERR'', ''D(DATA)'', ''ERR'', ''ERR-T'', ''STAT-W G''] = Some 3"
    by (simp add: err_dataset_def norm_label_def string_defs)
  have row: "slice_to (data err_dataset) 5000 ! nat (point_index ?p) =
           Seq [PyFloat (Finite 4), PyFloat (Finite 1), PyFloat (Finite (- 3)), PyStr ''-'']"
    by (simp add: err_dataset_def slice_to_def)
  have nums: "to_num (PyStr ''-'') = Inr None"
    "to_num (PyFloat (Finite 1)) = Inr (Some (Finite 1))"
    "to_num (PyFloat (Finite (- 3))) = Inr (Some (Finite (- 3)))"
    by (simp_all add: to_num_def string_defs float_defs)
  have "uncertainty ?p = None"
    using single_error_column_shadows_pair[OF err_points _ idx row] nums(1) by simp
  with err_points idx row nums show ?thesis by simp
qed

subsection \<open>The value column\<close>

lemma startswith_iff: "startswith s p \<longleftrightarrow> (\<exists>b. s = p @ b)"
proof
  assume "startswith s p"
  then have "s = p @ drop (length p) s"
    by (metis append_take_drop_id startswith_def)
  then show "\<exists>b. s = p @ b" ..
next
  assume "\<exists>b. s = p @ b"
  then show "startswith s p" by (auto simp: startswith_def)
qed

lemma contains_iff: "contains s p \<longleftrightarrow> (\<exists>a b. s = a @ p @ b)"
proof (induction s)
  case Nil
  then show ?case by auto
next
  case (Cons c cs)
  have "(\<exists>a b. c # cs = a @ p @ b) \<longleftrightarrow> (\<exists>b. c # cs = p @ b) \<or> (\<exists>a b. cs = a @ p @ b)"
  proof
    assume "\<exists>a b. c # cs = a @ p @ b"
    then obtain a b where ab: "c # cs = a @ p @ b" by blast
    show "(\<exists>b. c # cs = p @ b) \<or> (\<exists>a b. cs = a @ p @ b)"
    proof (cases a)
      case Nil
      with ab show ?thesis by auto
    next
      case (Cons x a')
      with ab have "cs = a' @ p @ b" by simp
      then show ?thesis by blast
    qed
  next
    assume "(\<exists>b. c # cs = p @ b) \<or> (\<exists>a b. cs = a @ p @ b)"
    then show "\<exists>a b. c # cs = a @ p @ b"
    proof
      assume "\<exists>b. c # cs = p @ b"
      then obtain b where "c # cs = [] @ p @ b" by auto
      then show ?thesis by blast
    next
      assume "\<exists>a b. cs = a @ p @ b"
      then obtain a b where "c # cs = (c # a) @ p @ b" by auto
      then show ?thesis by blast
    qed
  qed
  with Cons show ?case by (simp add: startswith_iff)
qed

lemma skipped_label_iff:
  "skipped_label l \<longleftrightarrow>
     (\<exists>a b. l = a @ ''ERR'' @ b) \<or> (\<exists>b. l = ''D('' @ b) \<or>
     l \<in> {''EN'', ''ENERGY'', ''EN-LAB'', ''EN-CM'', ''EN-RSL'', ''KT'', ''KT-K''}"
  unfolding skipped_label_def contains_iff startswith_iff energy_labels_def by simp

lemma index_of_first:
  "c \<in> set ls \<Longrightarrow>
     \<exists>i<length ls. index_of ls c = Some i \<and> ls ! i = c \<and> (\<forall>j<i. ls ! j \<noteq> c)"
proof (induction ls)
  case Nil
  then show ?case by simp
next
  case (Cons l ls)
  show ?case
  proof (cases "l = c")
    case True
    then show ?thesis by auto
  next
    case False
    with Cons.prems have "c \<in> set ls" by simp
    from Cons.IH[OF this] obtain i where
      i: "i < length ls" "index_of ls c = Some i" "ls ! i = c" "\<forall>j<i. ls ! j \<noteq> c"
      by blast
    have "\<forall>j<Suc i. (l # ls) ! j \<noteq> c"
    proof (intro allI impI)
      fix j assume "j < Suc i"
      with i(4) False show "(l # ls) ! j \<noteq> c" by (cases j) auto
    qed
    with i False have "Suc i < length (l # ls) \<and> index_of (l # ls) c = Some (Suc i) \<and>
        (l # ls) ! Suc i = c \<and> (\<forall>j<Suc i. (l # ls) ! j \<noteq> c)"
      by simp
    then show ?thesis by blast
  qed
qed

lemma first_kept_first:
  "\<exists>l\<in>set ls. \<not> skipped_label l \<Longrightarrow>
     \<exists>i<length ls. first_kept n ls = Some (n + i) \<and> \<not> skipped_label (ls ! i) \<and>
        (\<forall>j<i. skipped_label (ls ! j))"
proof (induction ls arbitrary: n)
  case Nil
  then show ?case by simp
next
  case (Cons l ls)
  show ?case
  proof (cases "skipped_label l")
    case False
    then have "0 < length (l # ls) \<and> first_kept n (l # ls) = Some (n + 0) \<and>
        \<not> skipped_label ((l # ls) ! 0) \<and> (\<forall>j<0. skipped_label ((l # ls) ! j))"
      by simp
    then show ?thesis by blast
  next
    case True
    with Cons.prems have "\<exists>l\<in>set ls. \<not> skipped_label l" by simp
    from Cons.IH[OF this, of "Suc n"] obtain i where
      i: "i < length ls" "first_kept (Suc n) ls = Some (Suc n + i)"
         "\<not> skipped_label (ls ! i)" "\<forall>j<i. skipped_label (ls ! j)"
      by blast
    have "\<forall>j<Suc i. skipped_label ((l # ls) ! j)"
    proof (intro allI impI)
      fix j assume "j < Suc i"
      with i(4) True show "skipped_label ((l # ls) ! j)" by (cases j) auto
    qed
    with i True have "Suc i < length (l # ls) \<and>
        first_kept n (l # ls) = Some (n + Suc i) \<and>
        \<not> skipped_label ((l # ls) ! Suc i) \<and> (\<forall>j<Suc i. skipped_label ((l # ls) ! j))"
      by simp
    then show ?thesis by blast
  qed
qed

lemma first_kept_none: "\<forall>l\<in>set ls. skipped_label l \<Longrightarrow> first_kept n ls = None"
  by (induction ls arbitrary: n) auto

lemma data_index_DATA:
  assumes "''DATA'' \<in> set lbls"
  shows "\<exists>i<length lbls. data_index lbls = Some i \<and> lbls ! i = ''DATA'' \<and>
           (\<forall>j<i. lbls ! j \<noteq> ''DATA'')"
proof -
  from index_of_first[OF assms] obtain i where
    "i < length lbls" "index_of lbls ''DATA'' = Some i" "lbls ! i = ''DATA''"
    "\<forall>j<i. lbls ! j \<noteq> ''DATA''" by blast
  with assms show ?thesis by (auto simp: data_index_def)
qed

lemma data_index_fallback:
  assumes "''DATA'' \<notin> set lbls" and "\<exists>l\<in>set lbls. \<not> skipped_label l"
  shows "\<exists>i<length lbls. data_index lbls = Some i \<and> \<not> skipped_label (lbls ! i) \<and>
           (\<forall>j<i. skipped_label (lbls ! j))"
  using first_kept_first[OF assms(2), of 0] assms(1) by (simp add: data_index_def)

lemma data_index_none:
  assumes "''DATA'' \<notin> set lbls" and "\<forall>l\<in>set lbls. skipped_label l"
  shows "data_index lbls = None"
  using first_kept_none[OF assms(2), of 0] assms(1) by (simp add: data_index_def)

lemma extract_points_no_column:
  "data_index (map norm_label (labels ds)) = None \<or> labels ds = [] \<Longrightarrow>
     extract_points ds q m = Inr []"
  by (auto simp: extract_points_def Let_def)

lemma extract_points_value:
  assumes "extract_points ds q m = Inr pts" and "p \<in> set pts"
  shows "\<exists>i row. data_index (map norm_label (labels ds)) = Some i \<and>
           slice_to (data ds) m ! nat (point_index p) = Seq row \<and> i < length row \<and>
           to_num (row ! i) = Inr (Some (pvalue p))"
proof -
  from extract_points_origin[OF assms] obtain di k where
    di: "data_index (map norm_label (labels ds)) = Some di" and
    k: "point_index p = int k" and
    row: "extract_row (resolve_columns (map norm_label (labels ds))
            (map norm_label (units ds)) di) q (int k)
            (slice_to (data ds) m ! k) = Inr (Some p)"
    by blast
  from extract_row_Some[OF row] obtain r where
    "slice_to (data ds) m ! k = Seq r" "di < length r"
    "to_num (r ! di) = Inr (Some (pvalue p))"
    by (auto simp: resolve_columns_def)
  with di k show ?thesis by auto
qed

text \<open>
  C1. Without a \<^verbatim>\<open>DATA\<close> heading the value column is claimed to be the first heading
  that is not an error heading and not a known energy or temperature heading. The set
  \<^verbatim>\<open>energy_labels\<close> of the fallback lacks the headings \<^verbatim>\<open>E\<close> and \<^verbatim>\<open>K-T\<close>, which the
  energy and temperature columns are resolved with a few lines further down: in a dataset
  with the headings \<^verbatim>\<open>E\<close> and \<^verbatim>\<open>DATA-ERR\<close> the energy column is taken as the value
  column, and the point carries the energy cell as its value.
\<close>

theorem value_column_energy_heading:
  "\<not> skipped_label ''E'' \<and> \<not> skipped_label ''K-T'' \<and>
   data_index (map norm_label (labels e_dataset)) = Some 0 \<and>
   c_energy (resolve_columns (map norm_label (labels e_dataset))
     (map norm_label (units e_dataset)) 0) = Some 0 \<and>
   extract_points e_dataset ''SIG'' 5000 =
     Inr [\<lparr>point_index = 0, energy_ev = Some (Finite 2000000), kt_kev = None,
            pvalue = Finite 2, uncertainty = Some (Finite 0.5)\<rparr>]"
  by (simp add: e_dataset_def extract_defs unit_defs string_defs float_defs)

section \<open>Properties of the build driver\<close>

subsection \<open>Exceptions\<close>











subsection \<open>The state holds the kept candidates\<close>












subsection \<open>Keeping the first candidate of every key\<close>













subsection \<open>The example run\<close>









section \<open>Properties of the publication\<close>













end
